theory Spec2Isabelle
  imports Main "HOL-Library.Sublist"
begin

section \<open>Python values\<close>

text \<open>
  The adapter in \<^verbatim>\<open>jobspy_server.py\<close> moves plain Python values around: strings,
  integers, booleans, floats, \<^verbatim>\<open>None\<close>, lists and dictionaries.

  A Python \<^verbatim>\<open>str\<close> is modelled as the list of its code points, one \<^typ>\<open>char\<close> per
  code point, so the model covers the strings whose code points are below 256.
  A dictionary is an association list in insertion order; a float is kept
  symbolically (mantissa and binary exponent for the finite ones), since the code never
  computes with floats: it only asks whether one prints as \<^verbatim>\<open>nan\<close>.
\<close>

datatype py_float = Finite int int | PosInf | NegInf | NaN

datatype py_value =
    PyNone
  | PyBool bool
  | PyInt int
  | PyFloat py_float
  | PyStr string
  | PyList "py_value list"
  | PyDict "(string \<times> py_value) list"

type_synonym py_dict = "(string \<times> py_value) list"

text \<open>\<^verbatim>\<open>d[key] = value\<close>: an existing key keeps its position, a new key goes last.\<close>

fun dict_set :: "py_dict \<Rightarrow> string \<Rightarrow> py_value \<Rightarrow> py_dict" where
  "dict_set [] key v = [(key, v)]"
| "dict_set ((k, w) # d) key v = (if k = key then (k, v) # d else (k, w) # dict_set d key v)"

text \<open>The truth value Python gives an object in \<^verbatim>\<open>if x:\<close> and \<^verbatim>\<open>if not x:\<close>.\<close>

fun truthy :: "py_value \<Rightarrow> bool" where
  "truthy PyNone = False"
| "truthy (PyBool b) = b"
| "truthy (PyInt i) = (i \<noteq> 0)"
| "truthy (PyFloat (Finite m e)) = (m \<noteq> 0)"
| "truthy (PyFloat f) = True"
| "truthy (PyStr s) = (s \<noteq> [])"
| "truthy (PyList xs) = (xs \<noteq> [])"
| "truthy (PyDict d) = (d \<noteq> [])"

text \<open>
  \<^verbatim>\<open>str.lower()\<close> on code points below 256: the capital letters are \<^verbatim>\<open>A\<close>..\<^verbatim>\<open>Z\<close>
  (65..90) and the Latin-1 capitals 192..222 without the multiplication sign 215; each
  has its small letter 32 places further.
\<close>

definition lower_char :: "char \<Rightarrow> char" where
  "lower_char c =
     (let n = (of_char c :: nat)
      in if (65 \<le> n \<and> n \<le> 90) \<or> (192 \<le> n \<and> n \<le> 222 \<and> n \<noteq> 215)
         then char_of (n + 32) else c)"

definition lower :: "string \<Rightarrow> string" where
  "lower s = map lower_char s"

text \<open>
  \<^verbatim>\<open>isinstance(value, float) and str(value) == 'nan'\<close> (line 91). Python prints every
  not-a-number float as \<^verbatim>\<open>nan\<close>, the infinities as \<^verbatim>\<open>inf\<close> and \<^verbatim>\<open>-inf\<close>, and a finite
  float as a decimal numeral; \<^verbatim>\<open>bool\<close> and \<^verbatim>\<open>int\<close> are not instances of \<^verbatim>\<open>float\<close>.
\<close>

fun float_str_is_nan :: "py_float \<Rightarrow> bool" where
  "float_str_is_nan NaN = True"
| "float_str_is_nan f = False"

fun is_nan_float :: "py_value \<Rightarrow> bool" where
  "is_nan_float (PyFloat f) = float_str_is_nan f"
| "is_nan_float v = False"

section \<open>Exceptions and the collaborator\<close>

text \<open>
  What a \<^verbatim>\<open>raise\<close> carries: an instance of \<^verbatim>\<open>Exception\<close>, or an instance of
  \<^verbatim>\<open>BaseException\<close> outside \<^verbatim>\<open>Exception\<close> (\<^verbatim>\<open>SystemExit\<close>, \<^verbatim>\<open>KeyboardInterrupt\<close>,
  \<^verbatim>\<open>GeneratorExit\<close>), each with the text \<^verbatim>\<open>str(e)\<close> gives. The handler at line 108 is
  \<^verbatim>\<open>except Exception as e\<close>, so it takes the first kind only.
\<close>

datatype py_raise = PyException string | PyBaseException string

datatype 'a outcome = Returns 'a | Raises py_raise

text \<open>
  The object \<^verbatim>\<open>scrape_jobs\<close> hands back. A \<^verbatim>\<open>DataFrame\<close> is represented by its rows, the
  list of dictionaries \<^verbatim>\<open>to_dict('records')\<close> yields; any other object is one on which
  \<^verbatim>\<open>len(jobs_df)\<close> (line 83) or \<^verbatim>\<open>jobs_df.to_dict\<close> (line 86) raises.
\<close>

datatype py_object = DataFrame "py_dict list" | Malformed py_raise

fun to_dict_records :: "py_object \<Rightarrow> py_dict list outcome" where
  "to_dict_records (DataFrame rows) = Returns rows"
| "to_dict_records (Malformed e) = Raises e"

section \<open>The parameters of \<^verbatim>\<open>search_jobs\<close>\<close>

text \<open>The parameters as the body of \<^verbatim>\<open>search_jobs\<close> sees them (lines 10 to 22).\<close>

record request =
  search_term :: string
  location :: string
  site_name :: "string list option"
  results_wanted :: int
  hours_old :: int
  country_indeed :: string
  job_type :: "string option"
  is_remote :: "bool option"
  distance :: int
  linkedin_fetch_description :: bool
  offset :: int

text \<open>
  The arguments of one tool call: \<^verbatim>\<open>search_term\<close> is required, every other argument
  may be left out (\<^const>\<open>None\<close>). For \<^verbatim>\<open>site_name\<close>, \<^verbatim>\<open>job_type\<close> and \<^verbatim>\<open>is_remote\<close> the
  signature's default is \<^verbatim>\<open>None\<close> itself, so leaving the argument out and passing null
  are the same call.
\<close>

record tool_call =
  arg_search_term :: string
  arg_location :: "string option"
  arg_site_name :: "string list option"
  arg_results_wanted :: "int option"
  arg_hours_old :: "int option"
  arg_country_indeed :: "string option"
  arg_job_type :: "string option"
  arg_is_remote :: "bool option"
  arg_distance :: "int option"
  arg_linkedin_fetch_description :: "bool option"
  arg_offset :: "int option"

text \<open>Binding a call to the signature: an omitted argument takes its default.\<close>

definition bind_arguments :: "tool_call \<Rightarrow> request" where
  "bind_arguments c =
     \<lparr> search_term = arg_search_term c,
       location = (case arg_location c of None \<Rightarrow> [] | Some l \<Rightarrow> l),
       site_name = arg_site_name c,
       results_wanted = (case arg_results_wanted c of None \<Rightarrow> 20 | Some n \<Rightarrow> n),
       hours_old = (case arg_hours_old c of None \<Rightarrow> 72 | Some n \<Rightarrow> n),
       country_indeed = (case arg_country_indeed c of None \<Rightarrow> ''USA'' | Some s \<Rightarrow> s),
       job_type = arg_job_type c,
       is_remote = arg_is_remote c,
       distance = (case arg_distance c of None \<Rightarrow> 50 | Some n \<Rightarrow> n),
       linkedin_fetch_description =
         (case arg_linkedin_fetch_description c of None \<Rightarrow> False | Some b \<Rightarrow> b),
       offset = (case arg_offset c of None \<Rightarrow> 0 | Some n \<Rightarrow> n) \<rparr>"

text \<open>An optional string or boolean as the Python object it is.\<close>

fun opt_str :: "string option \<Rightarrow> py_value" where
  "opt_str None = PyNone"
| "opt_str (Some s) = PyStr s"

fun opt_bool :: "bool option \<Rightarrow> py_value" where
  "opt_bool None = PyNone"
| "opt_bool (Some b) = PyBool b"

section \<open>The search adapter\<close>

definition default_sites :: "string list" where
  "default_sites = [''indeed'', ''linkedin'', ''zip_recruiter'']"

definition valid_sites :: "string list" where
  "valid_sites = [''linkedin'', ''indeed'', ''zip_recruiter'', ''glassdoor'', ''google'']"

text \<open>Lines 47 and 48: the default is substituted when \<^verbatim>\<open>site_name is None\<close>.\<close>

definition substitute_default :: "string list option \<Rightarrow> string list" where
  "substitute_default s = (case s of None \<Rightarrow> default_sites | Some sites \<Rightarrow> sites)"

text \<open>Line 52: \<^verbatim>\<open>[site for site in site_name if site.lower() in valid_sites]\<close>.\<close>

definition filter_sites :: "string list \<Rightarrow> string list" where
  "filter_sites sites = [site \<leftarrow> sites. lower site \<in> set valid_sites]"

text \<open>Lines 59 to 78: the keyword arguments of the delegation.\<close>

definition build_kwargs :: "request \<Rightarrow> string list \<Rightarrow> py_dict" where
  "build_kwargs r sites =
     (let kwargs =
            [(''site_name'', PyList (map PyStr sites)),
             (''search_term'', PyStr (search_term r)),
             (''results_wanted'', PyInt (results_wanted r)),
             (''hours_old'', PyInt (hours_old r)),
             (''country_indeed'', PyStr (country_indeed r)),
             (''linkedin_fetch_description'', PyBool (linkedin_fetch_description r)),
             (''offset'', PyInt (offset r))];
          kwargs = (if truthy (PyStr (location r))
                    then dict_set kwargs ''location'' (PyStr (location r)) else kwargs);
          kwargs = (if truthy (opt_str (job_type r))
                    then dict_set kwargs ''job_type'' (opt_str (job_type r)) else kwargs);
          kwargs = (if opt_bool (is_remote r) \<noteq> PyNone
                    then dict_set kwargs ''is_remote'' (opt_bool (is_remote r)) else kwargs);
          kwargs = (if truthy (PyInt (distance r))
                    then dict_set kwargs ''distance'' (PyInt (distance r)) else kwargs)
      in kwargs)"

text \<open>
  Lines 89 to 92: the clean-up loops. The inner loop walks the items of one job and
  assigns \<^verbatim>\<open>None\<close> under the key of every item whose value prints as \<^verbatim>\<open>nan\<close>.
\<close>

definition clean_item :: "py_dict \<Rightarrow> string \<times> py_value \<Rightarrow> py_dict" where
  "clean_item job item =
     (case item of (key, v) \<Rightarrow> if is_nan_float v then dict_set job key PyNone else job)"

definition clean_job :: "py_dict \<Rightarrow> py_dict" where
  "clean_job job = foldl clean_item job job"

definition clean_jobs :: "py_dict list \<Rightarrow> py_dict list" where
  "clean_jobs jobs_list = map clean_job jobs_list"

text \<open>The two shapes of the returned dictionary (lines 55 and 112, lines 96 to 106).\<close>

definition error_result :: "string \<Rightarrow> py_value" where
  "error_result msg = PyDict [(''error'', PyStr msg), (''jobs'', PyList [])]"

definition success_result :: "request \<Rightarrow> string list \<Rightarrow> py_dict list \<Rightarrow> py_value" where
  "success_result r sites jobs_list =
     PyDict
       [(''jobs'', PyList (map PyDict jobs_list)),
        (''count'', PyInt (int (length jobs_list))),
        (''search_params'',
           PyDict
             [(''search_term'', PyStr (search_term r)),
              (''location'', PyStr (location r)),
              (''sites'', PyList (map PyStr sites)),
              (''results_wanted'', PyInt (results_wanted r)),
              (''hours_old'', PyInt (hours_old r))])]"

text \<open>Lines 108 to 112: \<^verbatim>\<open>except Exception as e: return {"error": str(e), "jobs": []}\<close>.\<close>

fun except_Exception :: "py_raise \<Rightarrow> py_value outcome" where
  "except_Exception (PyException msg) = Returns (error_result msg)"
| "except_Exception (PyBaseException msg) = Raises (PyBaseException msg)"

text \<open>
  \<^verbatim>\<open>search_jobs\<close> (lines 43 to 112), with the collaborator \<^verbatim>\<open>scrape_jobs\<close> as a
  parameter. The result is what the call returns or raises, together with the keyword
  arguments of every delegation made on the way, in order. The diagnostic
  \<^verbatim>\<open>print\<close> calls are left out.
\<close>

definition search_jobs ::
  "(py_dict \<Rightarrow> py_object outcome) \<Rightarrow> request \<Rightarrow> py_value outcome \<times> py_dict list" where
  "search_jobs scrape_jobs r =
     (let sites = filter_sites (substitute_default (site_name r))
      in if \<not> truthy (PyList (map PyStr sites))
         then (Returns (error_result ''No valid job sites provided''), [])
         else
           let kwargs = build_kwargs r sites
           in (case scrape_jobs kwargs of
                 Raises e \<Rightarrow> (except_Exception e, [kwargs])
               | Returns jobs_df \<Rightarrow>
                   (case to_dict_records jobs_df of
                      Raises e \<Rightarrow> (except_Exception e, [kwargs])
                    | Returns jobs_list \<Rightarrow>
                        (Returns (success_result r sites (clean_jobs jobs_list)),
                         [kwargs]))))"

text \<open>One tool call: bind the arguments, run the body.\<close>

definition call_search_jobs ::
  "(py_dict \<Rightarrow> py_object outcome) \<Rightarrow> tool_call \<Rightarrow> py_value outcome \<times> py_dict list" where
  "call_search_jobs scrape_jobs c = search_jobs scrape_jobs (bind_arguments c)"

section \<open>The static catalog\<close>

text \<open>\<^verbatim>\<open>get_job_sites\<close> (lines 116 to 146) takes no argument and returns a literal.\<close>

definition get_job_sites :: "py_value" where
  "get_job_sites =
     PyDict
       [(''sites'',
           PyList
             [PyDict [(''name'', PyStr ''linkedin''),
                      (''description'', PyStr ''LinkedIn Jobs - Professional networking platform with extensive job listings'')],
              PyDict [(''name'', PyStr ''indeed''),
                      (''description'', PyStr ''Indeed - One of the largest job search engines worldwide'')],
              PyDict [(''name'', PyStr ''zip_recruiter''),
                      (''description'', PyStr ''ZipRecruiter - Job search platform with smart matching technology'')],
              PyDict [(''name'', PyStr ''glassdoor''),
                      (''description'', PyStr ''Glassdoor - Job listings with company reviews and salary information'')],
              PyDict [(''name'', PyStr ''google''),
                      (''description'', PyStr ''Google Jobs - Aggregated job listings from across the web'')]]),
        (''note'', PyStr ''You can search multiple sites simultaneously by passing a list of site names'')]"

section \<open>Example calls and collaborators\<close>

text \<open>The call \<^verbatim>\<open>search_jobs(search_term="nurse")\<close>: every other argument left out.\<close>

definition nurse_call :: tool_call where
  "nurse_call =
     \<lparr> arg_search_term = ''nurse'', arg_location = None, arg_site_name = None,
       arg_results_wanted = None, arg_hours_old = None, arg_country_indeed = None,
       arg_job_type = None, arg_is_remote = None, arg_distance = None,
       arg_linkedin_fetch_description = None, arg_offset = None \<rparr>"

text \<open>A collaborator that finds nothing: it returns an empty \<^verbatim>\<open>DataFrame\<close>.\<close>

definition scrape_nothing :: "py_dict \<Rightarrow> py_object outcome" where
  "scrape_nothing kwargs = Returns (DataFrame [])"

text \<open>A collaborator that returns three rows, the second with a not-a-number salary.\<close>

definition three_rows :: "py_dict list" where
  "three_rows =
     [[(''title'', PyStr ''Staff Nurse''), (''min_amount'', PyFloat (Finite 65000 0)),
       (''is_remote'', PyBool False)],
      [(''title'', PyStr ''Nurse Practitioner''), (''min_amount'', PyFloat NaN),
       (''is_remote'', PyNone)],
      [(''title'', PyStr ''Travel Nurse''), (''min_amount'', PyInt 40),
       (''is_remote'', PyBool True)]]"

definition scrape_three :: "py_dict \<Rightarrow> py_object outcome" where
  "scrape_three kwargs = Returns (DataFrame three_rows)"

text \<open>A collaborator that raises, and one that returns an object that is no table.\<close>

definition scrape_failing :: "py_dict \<Rightarrow> py_object outcome" where
  "scrape_failing kwargs = Raises (PyException ''connection refused'')"

definition scrape_malformed :: "py_dict \<Rightarrow> py_object outcome" where
  "scrape_malformed kwargs =
     Returns (Malformed (PyException ''object has no len()''))"

section \<open>Auxiliary facts\<close>

subsection \<open>Facts about dictionaries\<close>

lemma dict_set_mid:
  "key \<notin> fst ` set pre \<Longrightarrow> dict_set (pre @ (key, w) # post) key v = pre @ (key, v) # post"
  by (induction pre) auto

lemma map_of_dict_set:
  "map_of (dict_set d key v) k = (if k = key then Some v else map_of d k)"
  by (induction d key v rule: dict_set.induct) auto

lemma keys_dict_set:
  "fst ` set (dict_set d key v) = insert key (fst ` set d)"
  by (induction d key v rule: dict_set.induct) auto

lemma map_of_cond_set:
  "map_of (if c then dict_set d key v else d) k =
     (if c \<and> k = key then Some v else map_of d k)"
  by (simp add: map_of_dict_set)

lemma keys_cond_set:
  "fst ` set (if c then dict_set d key v else d) \<subseteq> insert key (fst ` set d)"
  by (auto simp: keys_dict_set)

subsection \<open>The clean-up loop\<close>

lemma is_nan_float_iff: "is_nan_float v \<longleftrightarrow> v = PyFloat NaN"
  by (cases v rule: is_nan_float.cases) (auto elim: float_str_is_nan.elims)

lemma clean_fold:
  "distinct (map fst (pre @ items)) \<Longrightarrow>
   foldl clean_item (pre @ items) items =
   pre @ map (\<lambda>(k, v). (k, if is_nan_float v then PyNone else v)) items"
proof (induction items arbitrary: pre)
  case Nil
  then show ?case by simp
next
  case (Cons item items)
  obtain k v where item: "item = (k, v)" by (cases item)
  from Cons.prems item have fresh: "k \<notin> fst ` set pre" by auto
  have step: "clean_item (pre @ item # items) item =
              (pre @ [(k, if is_nan_float v then PyNone else v)]) @ items"
    using fresh by (simp add: clean_item_def item dict_set_mid)
  from Cons.prems item
  have d: "distinct (map fst ((pre @ [(k, if is_nan_float v then PyNone else v)]) @ items))"
    by simp
  show ?case
    using Cons.IH [OF d] by (simp only: foldl_Cons step) (simp add: item)
qed

lemma clean_job_eq:
  "distinct (map fst job) \<Longrightarrow>
   clean_job job = map (\<lambda>(k, v). (k, if v = PyFloat NaN then PyNone else v)) job"
  using clean_fold [of "[]" job] by (simp add: clean_job_def is_nan_float_iff)

subsection \<open>The keyword arguments\<close>

lemma build_kwargs_always:
  "map_of (build_kwargs r sites) ''site_name'' = Some (PyList (map PyStr sites))"
  "map_of (build_kwargs r sites) ''search_term'' = Some (PyStr (search_term r))"
  "map_of (build_kwargs r sites) ''results_wanted'' = Some (PyInt (results_wanted r))"
  "map_of (build_kwargs r sites) ''hours_old'' = Some (PyInt (hours_old r))"
  "map_of (build_kwargs r sites) ''country_indeed'' = Some (PyStr (country_indeed r))"
  "map_of (build_kwargs r sites) ''linkedin_fetch_description'' =
     Some (PyBool (linkedin_fetch_description r))"
  "map_of (build_kwargs r sites) ''offset'' = Some (PyInt (offset r))"
  unfolding build_kwargs_def Let_def
  by (simp_all only: map_of_cond_set) simp_all

lemma build_kwargs_location:
  "map_of (build_kwargs r sites) ''location'' =
     (if location r = [] then None else Some (PyStr (location r)))"
  unfolding build_kwargs_def Let_def
  by (simp only: map_of_cond_set) simp

lemma build_kwargs_job_type:
  "map_of (build_kwargs r sites) ''job_type'' =
     (case job_type r of None \<Rightarrow> None
      | Some t \<Rightarrow> if t = [] then None else Some (PyStr t))"
  unfolding build_kwargs_def Let_def
  by (simp only: map_of_cond_set) (cases "job_type r"; simp)

lemma build_kwargs_is_remote:
  "map_of (build_kwargs r sites) ''is_remote'' = map_option PyBool (is_remote r)"
  unfolding build_kwargs_def Let_def
  by (simp only: map_of_cond_set) (cases "is_remote r"; simp)

lemma build_kwargs_distance:
  "map_of (build_kwargs r sites) ''distance'' =
     (if distance r = 0 then None else Some (PyInt (distance r)))"
  unfolding build_kwargs_def Let_def
  by (simp only: map_of_cond_set) simp

lemma build_kwargs_keys:
  "fst ` set (build_kwargs r sites) \<subseteq>
     {''site_name'', ''search_term'', ''results_wanted'', ''hours_old'', ''country_indeed'',
      ''linkedin_fetch_description'', ''offset'', ''location'', ''job_type'', ''is_remote'',
      ''distance''}"
proof -
  let ?base = "[(''site_name'', PyList (map PyStr sites)),
             (''search_term'', PyStr (search_term r)),
             (''results_wanted'', PyInt (results_wanted r)),
             (''hours_old'', PyInt (hours_old r)),
             (''country_indeed'', PyStr (country_indeed r)),
             (''linkedin_fetch_description'', PyBool (linkedin_fetch_description r)),
             (''offset'', PyInt (offset r))]"
  have step: "fst ` set (if c then dict_set d key v else d) \<subseteq> insert key K"
    if "fst ` set d \<subseteq> K" for c d key v K
    using that keys_cond_set [of c d key v] by blast
  have "fst ` set ?base \<subseteq> {''site_name'', ''search_term'', ''results_wanted'', ''hours_old'',
      ''country_indeed'', ''linkedin_fetch_description'', ''offset''}"
    by simp
  from step [OF step [OF step [OF step [OF this]]]]
  show ?thesis
    unfolding build_kwargs_def Let_def by blast
qed

subsection \<open>The paths through \<^const>\<open>search_jobs\<close>\<close>

lemma search_jobs_no_sites:
  "filter_sites (substitute_default (site_name r)) = [] \<Longrightarrow>
   search_jobs scrape_jobs r = (Returns (error_result ''No valid job sites provided''), [])"
  by (simp add: search_jobs_def)

lemma search_jobs_trace:
  "snd (search_jobs scrape_jobs r) =
     (if filter_sites (substitute_default (site_name r)) = [] then []
      else [build_kwargs r (filter_sites (substitute_default (site_name r)))])"
  by (simp add: search_jobs_def Let_def split: outcome.splits)

lemma search_jobs_delegated:
  "snd (search_jobs scrape_jobs r) = [kw] \<Longrightarrow>
   filter_sites (substitute_default (site_name r)) \<noteq> [] \<and>
   kw = build_kwargs r (filter_sites (substitute_default (site_name r)))"
  by (simp add: search_jobs_trace split: if_splits)

lemma search_jobs_result:
  "filter_sites (substitute_default (site_name r)) \<noteq> [] \<Longrightarrow>
   fst (search_jobs scrape_jobs r) =
     (case scrape_jobs (build_kwargs r (filter_sites (substitute_default (site_name r)))) of
        Raises e \<Rightarrow> except_Exception e
      | Returns (Malformed e) \<Rightarrow> except_Exception e
      | Returns (DataFrame rows) \<Rightarrow>
          Returns (success_result r (filter_sites (substitute_default (site_name r)))
                     (clean_jobs rows)))"
  by (simp add: search_jobs_def Let_def split: outcome.splits py_object.splits)

lemma except_Exception_cases:
  "except_Exception e = Returns v \<Longrightarrow> \<exists>msg. e = PyException msg \<and> v = error_result msg"
  by (cases e) auto

lemma count_list_filter:
  "count_list (filter P xs) x = (if P x then count_list xs x else 0)"
  by (induction xs) auto

lemma filter_default_sites: "filter_sites default_sites = default_sites"
  by code_simp

lemma clean_jobs_eq:
  "list_all (\<lambda>row. distinct (map fst row)) rows \<Longrightarrow>
   clean_jobs rows =
     map (\<lambda>row. map (\<lambda>(k, v). (k, if v = PyFloat NaN then PyNone else v)) row) rows"
  by (simp add: clean_jobs_def list_all_iff clean_job_eq)

lemma search_jobs_success:
  assumes "snd (search_jobs scrape_jobs r) = [kw]"
    and "scrape_jobs kw = Returns (DataFrame rows)"
  shows "fst (search_jobs scrape_jobs r) =
           Returns (success_result r (filter_sites (substitute_default (site_name r)))
                      (clean_jobs rows))"
  using search_jobs_delegated [OF assms(1)] assms(2)
  by (simp add: search_jobs_result)

lemma search_jobs_returns:
  assumes "fst (search_jobs scrape_jobs r) = Returns v"
  shows "(\<exists>msg. v = error_result msg) \<or>
         (filter_sites (substitute_default (site_name r)) \<noteq> [] \<and>
          (\<exists>rows. v = success_result r (filter_sites (substitute_default (site_name r)))
                         (clean_jobs rows)))"
proof (cases "filter_sites (substitute_default (site_name r)) = []")
  case True
  with assms show ?thesis
    by (auto simp: search_jobs_no_sites)
next
  case False
  with assms show ?thesis
    by (auto simp: search_jobs_result split: outcome.splits py_object.splits
             dest: except_Exception_cases)
qed

section \<open>Failures of the collaborator\<close>

text \<open>
  Claim C1. Whatever the arguments, a failure raised while \<^verbatim>\<open>search_jobs\<close> delegates to
  the scraping library, or while it converts what the library returned, is caught: the
  call returns the dictionary with \<^verbatim>\<open>error\<close> set to the text of the failure and \<^verbatim>\<open>jobs\<close>
  set to the empty list, and no failure leaves \<^verbatim>\<open>search_jobs\<close>. A failure is an
  instance of \<^verbatim>\<open>Exception\<close>, the class the handler names.
\<close>

theorem search_jobs_catches_failures:
  "fst (search_jobs scrape_jobs r) \<noteq> Raises (PyException msg') \<and>
   (snd (search_jobs scrape_jobs r) = [kw] \<longrightarrow>
    scrape_jobs kw = Raises (PyException msg) \<or>
    scrape_jobs kw = Returns (Malformed (PyException msg)) \<longrightarrow>
    fst (search_jobs scrape_jobs r) =
      Returns (PyDict [(''error'', PyStr msg), (''jobs'', PyList [])]))"
proof (cases "filter_sites (substitute_default (site_name r)) = []")
  case True
  then show ?thesis
    by (simp add: search_jobs_no_sites search_jobs_trace)
next
  case False
  have never: "except_Exception e \<noteq> Raises (PyException m)" for e m
    by (cases e) simp_all
  have a: "fst (search_jobs scrape_jobs r) \<noteq> Raises (PyException msg')"
    by (simp add: search_jobs_result [OF False] never split: outcome.splits py_object.splits)
  have b: "fst (search_jobs scrape_jobs r) = Returns (error_result msg)"
    if "snd (search_jobs scrape_jobs r) = [kw]"
      and "scrape_jobs kw = Raises (PyException msg) \<or>
           scrape_jobs kw = Returns (Malformed (PyException msg))"
    using that search_jobs_delegated [OF that(1)]
    by (auto simp: search_jobs_result [OF False])
  from a b show ?thesis
    by (simp add: error_result_def)
qed

theorem search_jobs_catches_failures_witness:
  "snd (search_jobs scrape_failing (bind_arguments nurse_call)) =
     [build_kwargs (bind_arguments nurse_call) default_sites] \<and>
   scrape_failing (build_kwargs (bind_arguments nurse_call) default_sites) =
     Raises (PyException ''connection refused'') \<and>
   fst (search_jobs scrape_failing (bind_arguments nurse_call)) =
     Returns (PyDict [(''error'', PyStr ''connection refused''), (''jobs'', PyList [])]) \<and>
   scrape_malformed (build_kwargs (bind_arguments nurse_call) default_sites) =
     Returns (Malformed (PyException ''object has no len()'')) \<and>
   fst (search_jobs scrape_malformed (bind_arguments nurse_call)) =
     Returns (PyDict [(''error'', PyStr ''object has no len()''), (''jobs'', PyList [])])"
proof -
  let ?r = "bind_arguments nurse_call"
  let ?kw = "build_kwargs ?r default_sites"
  have t1: "snd (search_jobs scrape_failing ?r) = [?kw]"
    by code_simp
  have t2: "snd (search_jobs scrape_malformed ?r) = [?kw]"
    by code_simp
  have f: "scrape_failing ?kw = Raises (PyException ''connection refused'')"
    by (simp add: scrape_failing_def)
  have m: "scrape_malformed ?kw = Returns (Malformed (PyException ''object has no len()''))"
    by (simp add: scrape_malformed_def)
  show ?thesis
    using search_jobs_catches_failures [of scrape_failing ?r _ ?kw "''connection refused''"]
      search_jobs_catches_failures [of scrape_malformed ?r _ ?kw "''object has no len()''"]
      t1 t2 f m
    by simp
qed

section \<open>The default site list\<close>

text \<open>
  Claim C2 says that an absent and an empty \<^verbatim>\<open>site_name\<close> both give the default list
  \<^verbatim>\<open>[indeed, linkedin, zip_recruiter]\<close>. The test at line 47 is \<^verbatim>\<open>site_name is None\<close>, so
  an empty list is kept, filters to nothing, and the call with
  \<^verbatim>\<open>search_term="nurse", site_name=[]\<close> ends at line 55 without any delegation.
\<close>

theorem empty_site_list_counterexample:
  "search_jobs scrape_nothing (bind_arguments (nurse_call\<lparr>arg_site_name := Some []\<rparr>)) =
     (Returns (PyDict [(''error'', PyStr ''No valid job sites provided''), (''jobs'', PyList [])]),
      [])"
  by code_simp

text \<open>
  Claim C2 as amended. When \<^verbatim>\<open>site_name\<close> is absent (null), \<^verbatim>\<open>search_jobs\<close> delegates
  once, with exactly \<^verbatim>\<open>[indeed, linkedin, zip_recruiter]\<close> as the site list. When
  \<^verbatim>\<open>site_name\<close> is an empty list no default is substituted: the call returns the
  error \<^verbatim>\<open>No valid job sites provided\<close> and does not delegate.
\<close>

theorem default_sites_when_absent:
  "(site_name r = None \<longrightarrow>
      (\<exists>kw. snd (search_jobs scrape_jobs r) = [kw] \<and>
            map_of kw ''site_name'' =
              Some (PyList [PyStr ''indeed'', PyStr ''linkedin'', PyStr ''zip_recruiter'']))) \<and>
   (site_name r' = Some [] \<longrightarrow>
      search_jobs scrape_jobs r' =
        (Returns (PyDict [(''error'', PyStr ''No valid job sites provided''),
                          (''jobs'', PyList [])]), []))"
proof (intro conjI impI)
  assume "site_name r = None"
  then have sites: "filter_sites (substitute_default (site_name r)) = default_sites"
    by (simp add: substitute_default_def filter_default_sites)
  have ne: "default_sites \<noteq> []"
    by (simp add: default_sites_def)
  have "snd (search_jobs scrape_jobs r) = [build_kwargs r default_sites]"
    by (simp add: search_jobs_trace sites ne)
  moreover have "map_of (build_kwargs r default_sites) ''site_name'' =
      Some (PyList [PyStr ''indeed'', PyStr ''linkedin'', PyStr ''zip_recruiter''])"
    by (simp add: build_kwargs_always(1)) (simp add: default_sites_def)
  ultimately show "\<exists>kw. snd (search_jobs scrape_jobs r) = [kw] \<and>
      map_of kw ''site_name'' =
        Some (PyList [PyStr ''indeed'', PyStr ''linkedin'', PyStr ''zip_recruiter''])"
    by blast
next
  assume "site_name r' = Some []"
  then have "filter_sites (substitute_default (site_name r')) = []"
    by (simp add: substitute_default_def filter_sites_def)
  from search_jobs_no_sites [OF this]
  show "search_jobs scrape_jobs r' =
      (Returns (PyDict [(''error'', PyStr ''No valid job sites provided''),
                        (''jobs'', PyList [])]), [])"
    by (simp add: error_result_def)
qed

theorem default_sites_when_absent_witness:
  "site_name (bind_arguments nurse_call) = None \<and>
   (\<exists>kw. snd (search_jobs scrape_three (bind_arguments nurse_call)) = [kw] \<and>
         map_of kw ''site_name'' =
           Some (PyList [PyStr ''indeed'', PyStr ''linkedin'', PyStr ''zip_recruiter''])) \<and>
   site_name (bind_arguments (nurse_call\<lparr>arg_site_name := Some []\<rparr>)) = Some [] \<and>
   search_jobs scrape_three (bind_arguments (nurse_call\<lparr>arg_site_name := Some []\<rparr>)) =
     (Returns (PyDict [(''error'', PyStr ''No valid job sites provided''),
                       (''jobs'', PyList [])]), [])"
proof -
  have a: "site_name (bind_arguments nurse_call) = None"
    by (simp add: bind_arguments_def nurse_call_def)
  have b: "site_name (bind_arguments (nurse_call\<lparr>arg_site_name := Some []\<rparr>)) = Some []"
    by (simp add: bind_arguments_def)
  show ?thesis
    using default_sites_when_absent
      [of "bind_arguments nurse_call" scrape_three
          "bind_arguments (nurse_call\<lparr>arg_site_name := Some []\<rparr>)"] a b
    by simp
qed

section \<open>Filtering the site list\<close>

text \<open>
  Claim C3 says that the filtered list holds the lowercase canonical form of every
  recognised site. Line 52 lowers a site only for the membership test and keeps the
  element itself: \<^verbatim>\<open>["LinkedIn"]\<close> filters to \<^verbatim>\<open>["LinkedIn"]\<close>, and \<^verbatim>\<open>linkedin\<close> is
  not in the result.
\<close>

theorem filter_sites_lowercase_counterexample:
  "filter_sites [''LinkedIn''] = [''LinkedIn''] \<and>
   ''linkedin'' \<notin> set (filter_sites [''LinkedIn''])"
  by code_simp

text \<open>
  Claim C3 as amended. The filtered list is a subsequence of the caller's list, so the
  caller's order is kept; an element whose lowercase form is one of \<^verbatim>\<open>linkedin\<close>,
  \<^verbatim>\<open>indeed\<close>, \<^verbatim>\<open>zip_recruiter\<close>, \<^verbatim>\<open>glassdoor\<close>, \<^verbatim>\<open>google\<close> occurs in it as often as in
  the caller's list, spelled as the caller spelled it; every other element is dropped,
  and filtering cannot fail.
\<close>

theorem filter_sites_keeps_recognised_verbatim:
  "subseq (filter_sites sites) sites \<and>
   count_list (filter_sites sites) s =
     (if lower s \<in> {''linkedin'', ''indeed'', ''zip_recruiter'', ''glassdoor'', ''google''}
      then count_list sites s else 0)"
proof -
  have "set valid_sites =
      {''linkedin'', ''indeed'', ''zip_recruiter'', ''glassdoor'', ''google''}"
    by (simp add: valid_sites_def)
  then show ?thesis
    unfolding filter_sites_def by (simp only: count_list_filter subseq_filter_left)
qed

section \<open>No valid site\<close>

text \<open>
  Claim C4. When no site is left after filtering, \<^verbatim>\<open>search_jobs\<close> returns the dictionary
  with \<^verbatim>\<open>error\<close> set to \<^verbatim>\<open>No valid job sites provided\<close> and an empty \<^verbatim>\<open>jobs\<close> list, and
  the scraping library is not called: the list of delegations is empty.
\<close>

theorem no_valid_site_no_delegation:
  "filter_sites (substitute_default (site_name r)) = [] \<Longrightarrow>
   search_jobs scrape_jobs r =
     (Returns (PyDict [(''error'', PyStr ''No valid job sites provided''), (''jobs'', PyList [])]),
      [])"
  by (simp add: search_jobs_no_sites error_result_def)

theorem no_valid_site_no_delegation_witness:
  "filter_sites
     (substitute_default
        (site_name (bind_arguments (nurse_call\<lparr>arg_site_name := Some [''monster'']\<rparr>)))) = [] \<and>
   search_jobs scrape_three
     (bind_arguments (nurse_call\<lparr>arg_site_name := Some [''monster'']\<rparr>)) =
     (Returns (PyDict [(''error'', PyStr ''No valid job sites provided''), (''jobs'', PyList [])]),
      [])"
proof -
  have h: "filter_sites
     (substitute_default
        (site_name (bind_arguments (nurse_call\<lparr>arg_site_name := Some [''monster'']\<rparr>)))) = []"
    by code_simp
  show ?thesis
    using h no_valid_site_no_delegation [OF h, of scrape_three] by simp
qed

section \<open>The keyword arguments of the delegation\<close>

text \<open>
  Claim C5 says that \<^verbatim>\<open>location\<close>, \<^verbatim>\<open>job_type\<close>, \<^verbatim>\<open>is_remote\<close> and \<^verbatim>\<open>distance\<close> are
  forwarded only when the caller supplied them, and that an absent optional field is not
  forwarded as a default placeholder. The signature gives \<^verbatim>\<open>distance\<close> the default 50
  (line 19), which passes the test at line 77: the call \<^verbatim>\<open>search_jobs(search_term="nurse")\<close>
  supplies no distance and delegates with \<^verbatim>\<open>distance=50\<close>.
\<close>

theorem omitted_distance_counterexample:
  "arg_distance nurse_call = None \<and>
   snd (call_search_jobs scrape_nothing nurse_call) =
     [[(''site_name'', PyList [PyStr ''indeed'', PyStr ''linkedin'', PyStr ''zip_recruiter'']),
       (''search_term'', PyStr ''nurse''),
       (''results_wanted'', PyInt 20),
       (''hours_old'', PyInt 72),
       (''country_indeed'', PyStr ''USA''),
       (''linkedin_fetch_description'', PyBool False),
       (''offset'', PyInt 0),
       (''distance'', PyInt 50)]]"
  by code_simp

text \<open>
  Claim C5 as amended. Every delegation carries \<^verbatim>\<open>site_name\<close> (the filtered list),
  \<^verbatim>\<open>search_term\<close>, \<^verbatim>\<open>results_wanted\<close>, \<^verbatim>\<open>hours_old\<close>, \<^verbatim>\<open>country_indeed\<close>,
  \<^verbatim>\<open>linkedin_fetch_description\<close> and \<^verbatim>\<open>offset\<close>, each with the caller's value or the
  signature's default. It carries \<^verbatim>\<open>location\<close> exactly when the caller supplied a
  non-empty one, \<^verbatim>\<open>job_type\<close> exactly when the caller supplied a non-empty one,
  \<^verbatim>\<open>is_remote\<close> exactly when the caller supplied a boolean, and \<^verbatim>\<open>distance\<close> exactly
  when its effective value is not zero, where the effective value is the caller's or,
  when the caller left it out, the default 50. It carries no other key.
\<close>

theorem delegation_arguments:
  assumes "snd (call_search_jobs scrape_jobs c) = [kw]"
  shows "map_of kw ''site_name'' =
           Some (PyList (map PyStr (filter_sites (substitute_default (arg_site_name c))))) \<and>
         map_of kw ''search_term'' = Some (PyStr (arg_search_term c)) \<and>
         map_of kw ''results_wanted'' =
           Some (PyInt (case arg_results_wanted c of None \<Rightarrow> 20 | Some n \<Rightarrow> n)) \<and>
         map_of kw ''hours_old'' =
           Some (PyInt (case arg_hours_old c of None \<Rightarrow> 72 | Some n \<Rightarrow> n)) \<and>
         map_of kw ''country_indeed'' =
           Some (PyStr (case arg_country_indeed c of None \<Rightarrow> ''USA'' | Some s \<Rightarrow> s)) \<and>
         map_of kw ''linkedin_fetch_description'' =
           Some (PyBool (case arg_linkedin_fetch_description c of None \<Rightarrow> False
                         | Some b \<Rightarrow> b)) \<and>
         map_of kw ''offset'' =
           Some (PyInt (case arg_offset c of None \<Rightarrow> 0 | Some n \<Rightarrow> n)) \<and>
         map_of kw ''location'' =
           (case arg_location c of None \<Rightarrow> None
            | Some l \<Rightarrow> if l = [] then None else Some (PyStr l)) \<and>
         map_of kw ''job_type'' =
           (case arg_job_type c of None \<Rightarrow> None
            | Some t \<Rightarrow> if t = [] then None else Some (PyStr t)) \<and>
         map_of kw ''is_remote'' =
           (case arg_is_remote c of None \<Rightarrow> None | Some b \<Rightarrow> Some (PyBool b)) \<and>
         map_of kw ''distance'' =
           (case arg_distance c of None \<Rightarrow> Some (PyInt 50)
            | Some d \<Rightarrow> if d = 0 then None else Some (PyInt d)) \<and>
         fst ` set kw \<subseteq>
           {''site_name'', ''search_term'', ''results_wanted'', ''hours_old'',
            ''country_indeed'', ''linkedin_fetch_description'', ''offset'', ''location'',
            ''job_type'', ''is_remote'', ''distance''}"
proof -
  let ?r = "bind_arguments c"
  let ?sites = "filter_sites (substitute_default (site_name ?r))"
  from assms have kw: "kw = build_kwargs ?r ?sites"
    using search_jobs_delegated [of scrape_jobs ?r kw] by (simp add: call_search_jobs_def)
  have sel: "site_name ?r = arg_site_name c" "search_term ?r = arg_search_term c"
    "results_wanted ?r = (case arg_results_wanted c of None \<Rightarrow> 20 | Some n \<Rightarrow> n)"
    "hours_old ?r = (case arg_hours_old c of None \<Rightarrow> 72 | Some n \<Rightarrow> n)"
    "country_indeed ?r = (case arg_country_indeed c of None \<Rightarrow> ''USA'' | Some s \<Rightarrow> s)"
    "linkedin_fetch_description ?r =
       (case arg_linkedin_fetch_description c of None \<Rightarrow> False | Some b \<Rightarrow> b)"
    "offset ?r = (case arg_offset c of None \<Rightarrow> 0 | Some n \<Rightarrow> n)"
    "location ?r = (case arg_location c of None \<Rightarrow> [] | Some l \<Rightarrow> l)"
    "job_type ?r = arg_job_type c" "is_remote ?r = arg_is_remote c"
    "distance ?r = (case arg_distance c of None \<Rightarrow> 50 | Some n \<Rightarrow> n)"
    by (simp_all add: bind_arguments_def)
  have always:
    "map_of kw ''site_name'' =
       Some (PyList (map PyStr (filter_sites (substitute_default (arg_site_name c)))))"
    "map_of kw ''search_term'' = Some (PyStr (arg_search_term c))"
    "map_of kw ''results_wanted'' =
       Some (PyInt (case arg_results_wanted c of None \<Rightarrow> 20 | Some n \<Rightarrow> n))"
    "map_of kw ''hours_old'' =
       Some (PyInt (case arg_hours_old c of None \<Rightarrow> 72 | Some n \<Rightarrow> n))"
    "map_of kw ''country_indeed'' =
       Some (PyStr (case arg_country_indeed c of None \<Rightarrow> ''USA'' | Some s \<Rightarrow> s))"
    "map_of kw ''linkedin_fetch_description'' =
       Some (PyBool (case arg_linkedin_fetch_description c of None \<Rightarrow> False
                     | Some b \<Rightarrow> b))"
    "map_of kw ''offset'' = Some (PyInt (case arg_offset c of None \<Rightarrow> 0 | Some n \<Rightarrow> n))"
    unfolding kw by (simp_all only: build_kwargs_always sel)
  have loc: "map_of kw ''location'' =
      (case arg_location c of None \<Rightarrow> None
       | Some l \<Rightarrow> if l = [] then None else Some (PyStr l))"
    unfolding kw by (simp only: build_kwargs_location sel) (simp split: option.split)
  have jt: "map_of kw ''job_type'' =
      (case arg_job_type c of None \<Rightarrow> None
       | Some t \<Rightarrow> if t = [] then None else Some (PyStr t))"
    unfolding kw by (simp only: build_kwargs_job_type sel)
  have rem: "map_of kw ''is_remote'' =
      (case arg_is_remote c of None \<Rightarrow> None | Some b \<Rightarrow> Some (PyBool b))"
    unfolding kw by (simp only: build_kwargs_is_remote sel) (simp split: option.split)
  have dist: "map_of kw ''distance'' =
      (case arg_distance c of None \<Rightarrow> Some (PyInt 50)
       | Some d \<Rightarrow> if d = 0 then None else Some (PyInt d))"
    unfolding kw by (simp only: build_kwargs_distance sel) (simp split: option.split)
  have keys: "fst ` set kw \<subseteq>
      {''site_name'', ''search_term'', ''results_wanted'', ''hours_old'',
       ''country_indeed'', ''linkedin_fetch_description'', ''offset'', ''location'',
       ''job_type'', ''is_remote'', ''distance''}"
    unfolding kw by (rule build_kwargs_keys)
  from always loc jt rem dist keys show ?thesis
    by (intro conjI)
qed

theorem delegation_arguments_witness:
  "snd (call_search_jobs scrape_three
          (nurse_call\<lparr>arg_location := Some [], arg_job_type := Some ''fulltime'',
                      arg_is_remote := Some False, arg_distance := Some 0\<rparr>)) =
     [[(''site_name'', PyList [PyStr ''indeed'', PyStr ''linkedin'', PyStr ''zip_recruiter'']),
       (''search_term'', PyStr ''nurse''),
       (''results_wanted'', PyInt 20),
       (''hours_old'', PyInt 72),
       (''country_indeed'', PyStr ''USA''),
       (''linkedin_fetch_description'', PyBool False),
       (''offset'', PyInt 0),
       (''job_type'', PyStr ''fulltime''),
       (''is_remote'', PyBool False)]] \<and>
   map_of
     [(''site_name'', PyList [PyStr ''indeed'', PyStr ''linkedin'', PyStr ''zip_recruiter'']),
      (''search_term'', PyStr ''nurse''),
      (''results_wanted'', PyInt 20),
      (''hours_old'', PyInt 72),
      (''country_indeed'', PyStr ''USA''),
      (''linkedin_fetch_description'', PyBool False),
      (''offset'', PyInt 0),
      (''job_type'', PyStr ''fulltime''),
      (''is_remote'', PyBool False)] ''distance'' = None"
proof -
  let ?c = "nurse_call\<lparr>arg_location := Some [], arg_job_type := Some ''fulltime'',
                      arg_is_remote := Some False, arg_distance := Some 0\<rparr>"
  let ?kw = "[(''site_name'', PyList [PyStr ''indeed'', PyStr ''linkedin'', PyStr ''zip_recruiter'']),
      (''search_term'', PyStr ''nurse''),
      (''results_wanted'', PyInt 20),
      (''hours_old'', PyInt 72),
      (''country_indeed'', PyStr ''USA''),
      (''linkedin_fetch_description'', PyBool False),
      (''offset'', PyInt 0),
      (''job_type'', PyStr ''fulltime''),
      (''is_remote'', PyBool False)]"
  have h: "snd (call_search_jobs scrape_three ?c) = [?kw]"
    by code_simp
  have d: "arg_distance ?c = Some 0"
    by simp
  from delegation_arguments [OF h]
  have "map_of ?kw ''distance'' =
      (case arg_distance ?c of None \<Rightarrow> Some (PyInt 50)
       | Some d \<Rightarrow> if d = 0 then None else Some (PyInt d))"
    by (elim conjE)
  with h d show ?thesis
    by (simp only: option.case if_True simp_thms)
qed

section \<open>Cleaning the rows\<close>

text \<open>
  Claim C6. When the scraping library returns a table, the \<^verbatim>\<open>jobs\<close> of the result are
  the rows of the table in their order, each with its field names in their order, and
  each value is the value of the table, except that a not-a-number float has become
  \<^verbatim>\<open>None\<close>. A row is a dictionary, so its keys are distinct.
\<close>

theorem nan_becomes_null:
  assumes "snd (search_jobs scrape_jobs r) = [kw]"
    and "scrape_jobs kw = Returns (DataFrame rows)"
    and "list_all (\<lambda>row. distinct (map fst row)) rows"
  shows "\<exists>d. fst (search_jobs scrape_jobs r) = Returns (PyDict d) \<and>
             map_of d ''jobs'' =
               Some (PyList
                 (map (\<lambda>row. PyDict
                         (map (\<lambda>(k, v). (k, if v = PyFloat NaN then PyNone else v)) row))
                    rows))"
  using search_jobs_success [OF assms(1,2)] clean_jobs_eq [OF assms(3)]
  by (simp add: success_result_def comp_def)

theorem nan_becomes_null_witness:
  "snd (search_jobs scrape_three (bind_arguments nurse_call)) =
     [build_kwargs (bind_arguments nurse_call) default_sites] \<and>
   scrape_three (build_kwargs (bind_arguments nurse_call) default_sites) =
     Returns (DataFrame
       [[(''title'', PyStr ''Staff Nurse''), (''min_amount'', PyFloat (Finite 65000 0)),
         (''is_remote'', PyBool False)],
        [(''title'', PyStr ''Nurse Practitioner''), (''min_amount'', PyFloat NaN),
         (''is_remote'', PyNone)],
        [(''title'', PyStr ''Travel Nurse''), (''min_amount'', PyInt 40),
         (''is_remote'', PyBool True)]]) \<and>
   (\<exists>d. fst (search_jobs scrape_three (bind_arguments nurse_call)) = Returns (PyDict d) \<and>
        map_of d ''jobs'' =
          Some (PyList
            [PyDict [(''title'', PyStr ''Staff Nurse''),
                     (''min_amount'', PyFloat (Finite 65000 0)), (''is_remote'', PyBool False)],
             PyDict [(''title'', PyStr ''Nurse Practitioner''), (''min_amount'', PyNone),
                     (''is_remote'', PyNone)],
             PyDict [(''title'', PyStr ''Travel Nurse''), (''min_amount'', PyInt 40),
                     (''is_remote'', PyBool True)]]))"
proof -
  let ?r = "bind_arguments nurse_call"
  let ?kw = "build_kwargs ?r default_sites"
  let ?rows = "[[(''title'', PyStr ''Staff Nurse''), (''min_amount'', PyFloat (Finite 65000 0)),
         (''is_remote'', PyBool False)],
        [(''title'', PyStr ''Nurse Practitioner''), (''min_amount'', PyFloat NaN),
         (''is_remote'', PyNone)],
        [(''title'', PyStr ''Travel Nurse''), (''min_amount'', PyInt 40),
         (''is_remote'', PyBool True)]]"
  have t: "snd (search_jobs scrape_three ?r) = [?kw]"
    by code_simp
  have s: "scrape_three ?kw = Returns (DataFrame ?rows)"
    by (simp add: scrape_three_def three_rows_def)
  have w: "list_all (\<lambda>row. distinct (map fst row)) ?rows"
    by simp
  show ?thesis
    using nan_becomes_null [OF t s w] t s by simp
qed

section \<open>The shape of a successful result\<close>

text \<open>
  Claim C7. A successful result, one without an \<^verbatim>\<open>error\<close> key, has \<^verbatim>\<open>count\<close> equal to
  the length of its \<^verbatim>\<open>jobs\<close> list, and its \<^verbatim>\<open>search_params\<close> are the search term, the
  location as the caller gave it (empty when it was empty), the filtered site list, and
  the \<^verbatim>\<open>results_wanted\<close> and \<^verbatim>\<open>hours_old\<close> of the call.
\<close>

theorem success_count_and_params:
  assumes "fst (search_jobs scrape_jobs r) = Returns (PyDict d)"
    and "map_of d ''error'' = None"
  shows "\<exists>jobs. map_of d ''jobs'' = Some (PyList jobs) \<and>
           map_of d ''count'' = Some (PyInt (int (length jobs))) \<and>
           map_of d ''search_params'' =
             Some (PyDict
               [(''search_term'', PyStr (search_term r)),
                (''location'', PyStr (location r)),
                (''sites'',
                   PyList (map PyStr (filter_sites (substitute_default (site_name r))))),
                (''results_wanted'', PyInt (results_wanted r)),
                (''hours_old'', PyInt (hours_old r))])"
  using search_jobs_returns [OF assms(1)] assms(2)
  by (auto simp: error_result_def success_result_def)

theorem success_count_and_params_witness:
  "fst (search_jobs scrape_three (bind_arguments nurse_call)) =
     Returns (PyDict
       [(''jobs'', PyList (map PyDict (clean_jobs three_rows))),
        (''count'', PyInt 3),
        (''search_params'',
           PyDict [(''search_term'', PyStr ''nurse''), (''location'', PyStr []),
                   (''sites'', PyList [PyStr ''indeed'', PyStr ''linkedin'',
                                       PyStr ''zip_recruiter'']),
                   (''results_wanted'', PyInt 20), (''hours_old'', PyInt 72)])]) \<and>
   map_of
     [(''jobs'', PyList (map PyDict (clean_jobs three_rows))),
      (''count'', PyInt 3),
      (''search_params'',
         PyDict [(''search_term'', PyStr ''nurse''), (''location'', PyStr []),
                 (''sites'', PyList [PyStr ''indeed'', PyStr ''linkedin'',
                                     PyStr ''zip_recruiter'']),
                 (''results_wanted'', PyInt 20), (''hours_old'', PyInt 72)])] ''error'' = None \<and>
   (\<exists>jobs. PyList (map PyDict (clean_jobs three_rows)) = PyList jobs \<and> int (length jobs) = 3)"
proof -
  let ?d = "[(''jobs'', PyList (map PyDict (clean_jobs three_rows))),
      (''count'', PyInt 3),
      (''search_params'',
         PyDict [(''search_term'', PyStr ''nurse''), (''location'', PyStr []),
                 (''sites'', PyList [PyStr ''indeed'', PyStr ''linkedin'',
                                     PyStr ''zip_recruiter'']),
                 (''results_wanted'', PyInt 20), (''hours_old'', PyInt 72)])]"
  have a: "fst (search_jobs scrape_three (bind_arguments nurse_call)) = Returns (PyDict ?d)"
    by code_simp
  have b: "map_of ?d ''error'' = None"
    by simp
  from success_count_and_params [OF a b]
  have "\<exists>jobs. PyList (map PyDict (clean_jobs three_rows)) = PyList jobs \<and>
      int (length jobs) = 3"
    by simp
  with a b show ?thesis
    by (intro conjI)
qed

section \<open>The catalog of sites\<close>

text \<open>
  Claim C8. \<^verbatim>\<open>get_job_sites\<close> takes no input and cannot fail: it is one fixed value,
  with exactly five site entries named \<^verbatim>\<open>linkedin\<close>, \<^verbatim>\<open>indeed\<close>, \<^verbatim>\<open>zip_recruiter\<close>,
  \<^verbatim>\<open>glassdoor\<close> and \<^verbatim>\<open>google\<close>, each made of a name and a non-empty description, and
  a fixed usage note.
\<close>

theorem get_job_sites_catalog:
  "\<exists>entries note.
      get_job_sites = PyDict [(''sites'', PyList entries), (''note'', PyStr note)] \<and>
      length entries = 5 \<and>
      map (\<lambda>e. case e of PyDict i \<Rightarrow> map_of i ''name'' | _ \<Rightarrow> None) entries =
        [Some (PyStr ''linkedin''), Some (PyStr ''indeed''), Some (PyStr ''zip_recruiter''),
         Some (PyStr ''glassdoor''), Some (PyStr ''google'')] \<and>
      list_all (\<lambda>e. \<exists>n t. e = PyDict [(''name'', PyStr n), (''description'', PyStr t)] \<and>
                          t \<noteq> []) entries \<and>
      note = ''You can search multiple sites simultaneously by passing a list of site names''"
  by (simp add: get_job_sites_def)

section \<open>The remote filter\<close>

text \<open>
  Claim C9. When the caller passes \<^verbatim>\<open>is_remote=False\<close>, the delegation carries
  \<^verbatim>\<open>is_remote\<close> with the value \<^verbatim>\<open>False\<close>; the key is missing from a delegation only
  when \<^verbatim>\<open>is_remote\<close> is \<^verbatim>\<open>None\<close>.
\<close>

theorem is_remote_false_forwarded:
  assumes "snd (search_jobs scrape_jobs r) = [kw]"
  shows "(is_remote r = Some False \<longrightarrow> map_of kw ''is_remote'' = Some (PyBool False)) \<and>
         (map_of kw ''is_remote'' = None \<longleftrightarrow> is_remote r = None)"
  using search_jobs_delegated [OF assms]
  by (simp add: build_kwargs_is_remote)

theorem is_remote_false_forwarded_witness:
  "snd (search_jobs scrape_nothing
          (bind_arguments (nurse_call\<lparr>arg_is_remote := Some False\<rparr>))) =
     [[(''site_name'', PyList [PyStr ''indeed'', PyStr ''linkedin'', PyStr ''zip_recruiter'']),
       (''search_term'', PyStr ''nurse''),
       (''results_wanted'', PyInt 20),
       (''hours_old'', PyInt 72),
       (''country_indeed'', PyStr ''USA''),
       (''linkedin_fetch_description'', PyBool False),
       (''offset'', PyInt 0),
       (''is_remote'', PyBool False),
       (''distance'', PyInt 50)]] \<and>
   is_remote (bind_arguments (nurse_call\<lparr>arg_is_remote := Some False\<rparr>)) = Some False \<and>
   map_of
     [(''site_name'', PyList [PyStr ''indeed'', PyStr ''linkedin'', PyStr ''zip_recruiter'']),
      (''search_term'', PyStr ''nurse''),
      (''results_wanted'', PyInt 20),
      (''hours_old'', PyInt 72),
      (''country_indeed'', PyStr ''USA''),
      (''linkedin_fetch_description'', PyBool False),
      (''offset'', PyInt 0),
      (''is_remote'', PyBool False),
      (''distance'', PyInt 50)] ''is_remote'' = Some (PyBool False)"
proof -
  let ?r = "bind_arguments (nurse_call\<lparr>arg_is_remote := Some False\<rparr>)"
  let ?kw = "[(''site_name'', PyList [PyStr ''indeed'', PyStr ''linkedin'', PyStr ''zip_recruiter'']),
      (''search_term'', PyStr ''nurse''),
      (''results_wanted'', PyInt 20),
      (''hours_old'', PyInt 72),
      (''country_indeed'', PyStr ''USA''),
      (''linkedin_fetch_description'', PyBool False),
      (''offset'', PyInt 0),
      (''is_remote'', PyBool False),
      (''distance'', PyInt 50)]"
  have h: "snd (search_jobs scrape_nothing ?r) = [?kw]"
    by code_simp
  have f: "is_remote ?r = Some False"
    by (simp add: bind_arguments_def)
  from is_remote_false_forwarded [OF h] f
  have "map_of ?kw ''is_remote'' = Some (PyBool False)"
    by (elim conjE) (simp only: simp_thms)
  with h f show ?thesis
    by (intro conjI)
qed

section \<open>Success needs a site\<close>

text \<open>
  Claim C10. A successful result, one with \<^verbatim>\<open>count\<close> and \<^verbatim>\<open>search_params\<close> and without
  an \<^verbatim>\<open>error\<close> key, has a non-empty \<^verbatim>\<open>sites\<close> list in its \<^verbatim>\<open>search_params\<close>.
\<close>

theorem success_has_sites:
  assumes "fst (search_jobs scrape_jobs r) = Returns (PyDict d)"
    and "map_of d ''count'' \<noteq> None"
    and "map_of d ''search_params'' \<noteq> None"
    and "map_of d ''error'' = None"
  shows "\<exists>params sites.
           map_of d ''search_params'' = Some (PyDict params) \<and>
           map_of params ''sites'' = Some (PyList sites) \<and> sites \<noteq> []"
  using search_jobs_returns [OF assms(1)] assms(2,3,4)
  by (auto simp: error_result_def success_result_def)

theorem success_has_sites_witness:
  "fst (search_jobs scrape_nothing
          (bind_arguments (nurse_call\<lparr>arg_site_name := Some [''Google'', ''monster'']\<rparr>))) =
     Returns (PyDict
       [(''jobs'', PyList []),
        (''count'', PyInt 0),
        (''search_params'',
           PyDict [(''search_term'', PyStr ''nurse''), (''location'', PyStr []),
                   (''sites'', PyList [PyStr ''Google'']),
                   (''results_wanted'', PyInt 20), (''hours_old'', PyInt 72)])]) \<and>
   (\<exists>params sites.
      map_of
        [(''jobs'', PyList []),
         (''count'', PyInt 0),
         (''search_params'',
            PyDict [(''search_term'', PyStr ''nurse''), (''location'', PyStr []),
                    (''sites'', PyList [PyStr ''Google'']),
                    (''results_wanted'', PyInt 20), (''hours_old'', PyInt 72)])]
        ''search_params'' = Some (PyDict params) \<and>
      map_of params ''sites'' = Some (PyList sites) \<and> sites \<noteq> [])"
proof -
  let ?d = "[(''jobs'', PyList []),
         (''count'', PyInt 0),
         (''search_params'',
            PyDict [(''search_term'', PyStr ''nurse''), (''location'', PyStr []),
                    (''sites'', PyList [PyStr ''Google'']),
                    (''results_wanted'', PyInt 20), (''hours_old'', PyInt 72)])]"
  have a: "fst (search_jobs scrape_nothing
          (bind_arguments (nurse_call\<lparr>arg_site_name := Some [''Google'', ''monster'']\<rparr>))) =
     Returns (PyDict ?d)"
    by code_simp
  have b: "map_of ?d ''count'' \<noteq> None" "map_of ?d ''search_params'' \<noteq> None"
    "map_of ?d ''error'' = None"
    by simp_all
  from success_has_sites [OF a b] a show ?thesis
    by (intro conjI)
qed

end
